theory Spec2Isabelle
  imports Main "HOL-Library.Char_ord" "HOL-Library.List_Lexorder" "HOL-Library.Multiset"
begin

section \<open>Text handed to the toolkit\<close>

text \<open>
  The entry and the label are widgets of the toolkit, which is written in C.  A Python
  string given to \<open>set_text\<close> or \<open>set_markup\<close> reaches the widget as a C string in UTF-8:
  what follows the first NUL character is not part of it.  A character below 128 takes
  one byte, the other characters of a \<open>string\<close> two.
\<close>

definition c_str :: "string \<Rightarrow> string" where
  "c_str s = takeWhile (\<lambda>c. c \<noteq> CHR 0x00) s"





section \<open>ProfileCombo (zenmapGUI/ProfileCombo.py)\<close>

text \<open>
  The widget is a combo box with an entry.  Two pieces of toolkit state are touched by the
  methods of the class: the rows of the one-column list store returned by \<open>get_model()\<close>
  (the entry completion is attached to the same store), and the text of the child entry
  returned by \<open>get_child()\<close>.  Python strings are character lists and are compared
  lexicographically by character code, the shorter of two strings being smaller when it is
  a prefix of the other.
\<close>

record ProfileCombo =
  store :: "string list"
  entry_text :: "string"

text \<open>
  What can go wrong inside the clearing loop: \<open>get_iter_first()\<close> answers \<open>None\<close> on an
  empty store, and \<open>del list[iter]\<close> raises on an iterator that names no row.
\<close>

datatype error = BadIter

text \<open>An iterator of the list store is the position of the row it names.\<close>

definition get_iter_first :: "string list \<Rightarrow> nat option" where
  "get_iter_first rows = (if rows = [] then None else Some 0)"

fun delitem :: "string list \<Rightarrow> nat option \<Rightarrow> error + string list" where
  "delitem rows None = Inl BadIter"
| "delitem rows (Some i) =
     (if i < length rows then Inr (take i rows @ drop (Suc i) rows) else Inl BadIter)"

text \<open>
  The first loop of \<open>set_profiles\<close>: \<open>range(len(list))\<close> is computed once, before any row
  is deleted, and each of its iterations deletes the row at the first iterator.
\<close>

fun clear_loop :: "nat \<Rightarrow> string list \<Rightarrow> error + string list" where
  "clear_loop 0 rows = Inr rows"
| "clear_loop (Suc k) rows =
     (case delitem rows (get_iter_first rows) of
        Inl e \<Rightarrow> Inl e
      | Inr rows' \<Rightarrow> clear_loop k rows')"

text \<open>The second loop: every element of \<open>profiles\<close> is appended as a new last row.\<close>

fun append_loop :: "string list \<Rightarrow> string list \<Rightarrow> string list" where
  "append_loop rows [] = rows"
| "append_loop rows (command # profiles) = append_loop (rows @ [command]) profiles"

definition set_profiles :: "ProfileCombo \<Rightarrow> string list \<Rightarrow> error + ProfileCombo" where
  "set_profiles self profiles =
     (case clear_loop (length (store self)) (store self) of
        Inl e \<Rightarrow> Inl e
      | Inr rows \<Rightarrow> Inr (self\<lparr>store := append_loop rows profiles\<rparr>))"

text \<open>
  Modelled from the spec: \<open>CommandProfile\<close> (zenmapCore.UmitConf) is not among the sources.
  The configuration collaborator exposes \<open>sections()\<close>, which returns the names of all
  defined scan profiles as a sequence of strings; the store behind it is the list of those
  names, and the call reads it.
\<close>

record CommandProfile =
  section_names :: "string list"

definition sections :: "CommandProfile \<Rightarrow> string list" where
  "sections profile = section_names profile"

text \<open>
  \<open>update\<close> works on the widget and on the configuration: both are returned, so that what
  the call does to each is visible.  \<open>profiles.sort()\<close> sorts the list that \<open>sections()\<close>
  returned, in ascending order.
\<close>

definition update :: "CommandProfile \<Rightarrow> ProfileCombo \<Rightarrow> error + (CommandProfile \<times> ProfileCombo)" where
  "update conf self =
     (let profile = conf;
          profiles = sections profile;
          profiles = sort profiles
      in case set_profiles self profiles of
           Inl e \<Rightarrow> Inl e
         | Inr self' \<Rightarrow> Inr (conf, self'))"

definition get_selected_profile :: "ProfileCombo \<Rightarrow> string" where
  "get_selected_profile self = entry_text self"


text \<open>The constructor: an empty store, an empty entry, then \<open>update()\<close>.\<close>

definition ProfileCombo_init :: "CommandProfile \<Rightarrow> error + (CommandProfile \<times> ProfileCombo)" where
  "ProfileCombo_init conf = update conf \<lparr>store = [], entry_text = []\<rparr>"

section \<open>HIGFrame (zenmapGUI/higwidgets/higframe.py)\<close>

text \<open>
  The frame keeps a label widget in \<open>_flabel\<close> and hands the same object to the frame as its
  label widget, so what the frame shows as caption is whatever that one label shows.
  A label holds the string it was given and the text it displays; the displayed text is a
  list of characters, each with the flag whether it is drawn bold.  The displayed text is
  \<open>None\<close> where the description of markup below does not say what is displayed.
\<close>

datatype ShadowType = SHADOW_NONE | SHADOW_IN | SHADOW_OUT | SHADOW_ETCHED_IN | SHADOW_ETCHED_OUT

type_synonym styled = "(char \<times> bool) list"

record Label =
  label_str :: "string"
  displayed :: "styled option"

datatype widget_ref = FLABEL

record HIGFrame =
  shadow_type :: "ShadowType"
  flabel :: "Label"
  label_widget :: "widget_ref option"

text \<open>
  \<open>set_markup\<close> reads its argument as markup.  The reader below covers a fragment of the
  markup language: text, the elements that take no attribute, written without white space
  and properly nested, and the five named character entities.  Its answer is the text to
  display, or that the markup is malformed, or that the markup is outside the fragment
  (any other tag, a numeric character reference, a control character other than tab and
  line feed), about which nothing is said here.  A character is bold when it stands inside
  a \<open>b\<close> element.
\<close>

datatype scan_mode = InText | InTag string | InEntity string

datatype reading = Shown styled | Malformed | Unread

definition elements :: "string list" where
  "elements = [''b'', ''big'', ''i'', ''s'', ''sub'', ''sup'', ''small'', ''tt'', ''u'']"

definition entity_char :: "string \<Rightarrow> char option" where
  "entity_char name =
     (if name = ''amp'' then Some (CHR ''&'')
      else if name = ''lt'' then Some (CHR ''<'')
      else if name = ''gt'' then Some (CHR ''>'')
      else if name = ''quot'' then Some (CHR 0x22)
      else if name = ''apos'' then Some (CHR 0x27)
      else None)"

text \<open>
  The characters that stand for themselves in text: neither \<open><\<close> nor \<open>&\<close>, and no control
  character other than tab and line feed.
\<close>

definition plain :: "char \<Rightarrow> bool" where
  "plain c = (c \<noteq> CHR ''<'' \<and> c \<noteq> CHR ''&'' \<and>
              (32 \<le> (of_char c :: nat) \<or> c = CHR 0x09 \<or> c = CHR 0x0A))"

text \<open>The markup reader first turns every carriage return, with a line feed that follows
  it, into one line feed.\<close>

fun newlines :: "string \<Rightarrow> string" where
  "newlines [] = []"
| "newlines [c] = (if c = CHR 0x0D then [CHR 0x0A] else [c])"
| "newlines (c # d # cs) =
     (if c = CHR 0x0D \<and> d = CHR 0x0A then CHR 0x0A # newlines cs
      else if c = CHR 0x0D then CHR 0x0A # newlines (d # cs)
      else c # newlines (d # cs))"

fun scan :: "scan_mode \<Rightarrow> string list \<Rightarrow> styled \<Rightarrow> string \<Rightarrow> reading" where
  "scan InText stack out [] = (if stack = [] then Shown out else Malformed)"
| "scan InText stack out (c # cs) =
     (if c = CHR ''<'' then scan (InTag []) stack out cs
      else if c = CHR ''&'' then scan (InEntity []) stack out cs
      else if plain c then scan InText stack (out @ [(c, ''b'' \<in> set stack)]) cs
      else Unread)"
| "scan (InTag t) stack out [] = Malformed"
| "scan (InTag t) stack out (c # cs) =
     (if c = CHR ''>'' then
        (case t of
           [] \<Rightarrow> Unread
         | d # name \<Rightarrow>
             if d = CHR ''/'' then
               (if name \<in> set elements then
                  (case stack of
                     [] \<Rightarrow> Malformed
                   | opened # rest \<Rightarrow>
                       if name = opened then scan InText rest out cs else Malformed)
                else Unread)
             else if t \<in> set elements then scan InText (t # stack) out cs
             else Unread)
      else scan (InTag (t @ [c])) stack out cs)"
| "scan (InEntity e) stack out [] = Malformed"
| "scan (InEntity e) stack out (c # cs) =
     (if c = CHR '';'' then
        (case entity_char e of
           None \<Rightarrow> (case e of [] \<Rightarrow> Malformed
                     | h # rest \<Rightarrow> if h = CHR ''#'' then Unread else Malformed)
         | Some x \<Rightarrow> scan InText stack (out @ [(x, ''b'' \<in> set stack)]) cs)
      else scan (InEntity (e @ [c])) stack out cs)"

definition parse_markup :: "string \<Rightarrow> reading" where
  "parse_markup markup = scan InText [] [] (newlines markup)"

text \<open>
  A label given malformed markup keeps the string but goes on displaying what it displayed
  before (the toolkit only logs a warning).
\<close>

definition set_markup :: "Label \<Rightarrow> string \<Rightarrow> Label" where
  "set_markup l markup =
     (case parse_markup (c_str markup) of
        Shown st \<Rightarrow> l\<lparr>label_str := c_str markup, displayed := Some st\<rparr>
      | Malformed \<Rightarrow> l\<lparr>label_str := c_str markup\<rparr>
      | Unread \<Rightarrow> l\<lparr>label_str := c_str markup, displayed := None\<rparr>)"

text \<open>
  \<open>"<b>%s</b>" % label\<close>: the argument is a string or \<open>None\<close>, and \<open>%s\<close> formats it with
  \<open>str\<close>.
\<close>

fun str :: "string option \<Rightarrow> string" where
  "str None = ''None''"
| "str (Some s) = s"

definition set_label :: "HIGFrame \<Rightarrow> string option \<Rightarrow> HIGFrame" where
  "set_label self label = self\<lparr>flabel := set_markup (flabel self) (''<b>'' @ str label @ ''</b>'')\<rparr>"

text \<open>
  The constructor.  A new frame has an etched-in shadow and no label widget; a new label
  is empty.
\<close>

definition HIGFrame_init :: "string option \<Rightarrow> HIGFrame" where
  "HIGFrame_init label =
     (let self = \<lparr>shadow_type = SHADOW_ETCHED_IN,
                  flabel = \<lparr>label_str = [], displayed = Some []\<rparr>,
                  label_widget = None\<rparr>;
          self = self\<lparr>shadow_type := SHADOW_NONE\<rparr>;
          self = set_label self label;
          self = self\<lparr>label_widget := Some FLABEL\<rparr>
      in self)"

text \<open>
  What the frame renders as its caption: the displayed text of its label widget.  It is
  \<open>None\<close> for a frame without a label widget, and where the displayed text is not known.
\<close>

definition caption :: "HIGFrame \<Rightarrow> styled option" where
  "caption self =
     (case label_widget self of
        None \<Rightarrow> None
      | Some FLABEL \<Rightarrow> displayed (flabel self))"

text \<open>The text \<open>s\<close> with every character bold.\<close>

definition bold :: "string \<Rightarrow> styled" where
  "bold s = map (\<lambda>c. (c, True)) s"

section \<open>Properties of ProfileCombo\<close>

lemma clear_loop_drop: "k \<le> length rows \<Longrightarrow> clear_loop k rows = Inr (drop k rows)"
proof (induction k arbitrary: rows)
  case 0
  show ?case by simp
next
  case (Suc k)
  then obtain r rs where rows: "rows = r # rs" by (cases rows) auto
  with Suc.prems have "k \<le> length rs" by simp
  from Suc.IH [OF this] show ?case by (simp add: rows get_iter_first_def)
qed

lemma append_loop_append: "append_loop rows profiles = rows @ profiles"
  by (induction profiles arbitrary: rows) simp_all

lemma set_profiles_result: "set_profiles self profiles = Inr (self\<lparr>store := profiles\<rparr>)"
  by (simp add: set_profiles_def clear_loop_drop append_loop_append)

lemma update_result:
  "update conf self = Inr (conf, self\<lparr>store := sort (sections conf)\<rparr>)"
  by (simp add: update_def set_profiles_result)

text \<open>
  C8: the clearing loop of \<open>set_profiles\<close> runs \<open>len(list)\<close> times.  Before each of its
  iterations, that is after \<open>k\<close> deletions for every \<open>k\<close> below the length, no deletion has
  failed and the store still has a first row, so \<open>get_iter_first\<close> finds one; after the
  last iteration no row is left.  This holds for every length, zero included.
\<close>

theorem clear_loop_safe:
  "clear_loop (length rows) rows = Inr [] \<and>
   (\<forall>k < length rows. \<exists>rows'. clear_loop k rows = Inr rows' \<and> get_iter_first rows' = Some 0)"
  by (simp add: clear_loop_drop get_iter_first_def)

theorem clear_loop_safe_witness:
  "clear_loop (length [''Ping Scan'', ''Quick Scan'']) [''Ping Scan'', ''Quick Scan''] = Inr [] \<and>
   (\<exists>rows'. clear_loop 1 [''Ping Scan'', ''Quick Scan''] = Inr rows' \<and> get_iter_first rows' = Some 0)"
proof -
  have "(1::nat) < length [''Ping Scan'', ''Quick Scan'']" by simp
  with clear_loop_safe [of "[''Ping Scan'', ''Quick Scan'']"] show ?thesis by blast
qed



text \<open>
  C4: from every prior state, \<open>set_profiles\<close> with the empty sequence succeeds, leaves the
  store empty and leaves the selected text as it was.
\<close>

theorem set_profiles_empty:
  "\<exists>self'. set_profiles self [] = Inr self' \<and> store self' = [] \<and>
          get_selected_profile self' = get_selected_profile self"
  by (simp add: set_profiles_result get_selected_profile_def)









text \<open>
  C6: \<open>update\<close> changes the store of the widget and nothing else: the configuration it
  returns is the configuration it was given, and the widget it returns differs from the
  prior widget in the store at most (the entry text is as before).
\<close>

theorem update_frame:
  "\<exists>self'. update conf self = Inr (conf, self') \<and>
          self' = self\<lparr>store := store self'\<rparr> \<and>
          entry_text self' = entry_text self"
  by (simp add: update_result)

text \<open>
  C7: when the configuration defines no profile, \<open>update\<close> succeeds (no error is raised)
  and leaves the store empty, whatever the prior state of the widget.
\<close>

theorem update_no_profiles:
  "sections conf = [] \<Longrightarrow> \<exists>self'. update conf self = Inr (conf, self') \<and> store self' = []"
  by (simp add: update_result)

theorem update_no_profiles_witness:
  "sections \<lparr>section_names = []\<rparr> = [] \<and>
   (\<exists>self'. update \<lparr>section_names = []\<rparr> \<lparr>store = [''Quick Scan''], entry_text = ''x''\<rparr>
              = Inr (\<lparr>section_names = []\<rparr>, self') \<and> store self' = [])"
proof -
  have h: "sections \<lparr>section_names = []\<rparr> = []" by (simp add: sections_def)
  from update_no_profiles [OF h, of "\<lparr>store = [''Quick Scan''], entry_text = ''x''\<rparr>"] h
  show ?thesis by simp
qed

section \<open>Properties of HIGFrame\<close>









text \<open>
  C9, as the code has it: a frame constructed without a label does not have an empty
  caption; \<open>None\<close> is formatted into the markup and the caption is the text None, four
  characters, all bold.
\<close>

theorem HIGFrame_no_label:
  "caption (HIGFrame_init None) = Some (bold ''None'') \<and>
   map_option length (caption (HIGFrame_init None)) = Some 4 \<and>
   caption (HIGFrame_init None) \<noteq> Some []"
  by (simp add: caption_def HIGFrame_init_def set_label_def set_markup_def parse_markup_def
      c_str_def plain_def bold_def elements_def)

text \<open>C9 as stated fails in the length it gives: the caption does not have three characters.\<close>

theorem HIGFrame_no_label_counterexample:
  "map_option length (caption (HIGFrame_init None)) \<noteq> Some 3"
  by (simp add: caption_def HIGFrame_init_def set_label_def set_markup_def parse_markup_def
      c_str_def plain_def elements_def)

end
